theory Spec2Isabelle
  imports Complex_Main
begin

section \<open>Slack channel resolution (sentry/integrations/slack/utils.py)\<close>

subsection \<open>Data\<close>

text \<open>
  Names and identifiers are strings. The tuple returned by channel resolution is
  \<open>(prefix, channel_id, timed_out)\<close>, where \<open>channel_id\<close> is a string or \<open>None\<close>.
\<close>

type_synonym channel_result = "string \<times> string option \<times> bool"

text \<open>
  The exceptions that can leave the functions modelled here. \<open>ApiError\<close> is what the
  Slack client raises; \<open>DuplicateDisplayNameError\<close> is raised by the resolver;
  \<open>UnboundLocalError\<close> is what Python raises when the \<open>for\<close> loop over the list types
  never binds \<open>prefix\<close>; \<open>Exception\<close> is the plain exception of the notification manager.
\<close>

datatype api_error = ApiError string

datatype exn =
    DuplicateDisplayNameError string
  | UnboundLocalError string
  | Exception string

fun str :: "api_error \<Rightarrow> string" where
  "str (ApiError msg) = msg"

text \<open>
  One entry of a Slack listing: \<open>c["name"]\<close>, \<open>c["id"]\<close> and the optional
  \<open>c.get("profile")\<close>, of which only \<open>profile.get("display_name")\<close> is read.
  A profile without a display name (also the empty, falsy dictionary) is
  \<open>display_name = None\<close>: in both cases the source records no candidate.
\<close>

record profile =
  display_name :: "string option"

record item =
  item_name :: string
  item_id :: string
  item_profile :: "profile option"

text \<open>
  One response of \<open>client.get\<close>: the list stored under the result name of the list type
  (\<open>items[result_name]\<close>) and \<open>response_metadata.next_cursor\<close>, absent or a string.
\<close>

record page =
  entries :: "item list"
  next_cursor :: "string option"

record integration =
  access_token :: string

text \<open>The request of one page: endpoint, headers and query parameters.\<close>

record request =
  endpoint :: string
  authorization :: string
  exclude_archived :: bool
  exclude_members :: bool
  types :: string
  cursor :: string
  limit :: nat

text \<open>The body of a \<open>chat.postMessage\<close> call.\<close>

record 'a post_data =
  token :: string
  channel :: string
  attachments :: "'a list"

record alert_rule_action =
  integration_id :: int
  target_identifier :: string

record organization =
  organization_id :: int

record incident =
  incident_organization :: organization

text \<open>
  The world outside the module, passed explicitly: the state \<open>'w\<close> stands for the Slack
  workspace, the clock, the log and the database. Each operation takes the world and returns
  the world after it, so that the order and the number of calls are part of every result.
  \<^item> \<open>client_get\<close> is \<open>SlackClient().get\<close>: a page, or \<open>ApiError\<close>;
  \<^item> \<open>client_post\<close> is \<open>SlackClient().post\<close> with its timeout in seconds;
  \<^item> \<open>time_time\<close> is \<open>time.time()\<close>, seconds as a real number (the rounding of
    floating point addition is not modelled);
  \<^item> \<open>logger_info\<close> is \<open>logger.info(message, extra={"error": ...})\<close>;
  \<^item> \<open>integration_objects_get\<close> is \<open>Integration.objects.get(id, organizations, status=VISIBLE)\<close>,
    \<open>None\<close> standing for \<open>Integration.DoesNotExist\<close>;
  \<^item> \<open>build_incident_attachment\<close> is the pure attachment builder; it is a parameter because
    it formats the result of \<open>incident_attachment_info\<close>, which lives in another module;
  \<^item> \<open>str_lower\<close> is \<open>str.lower\<close>, which follows the case tables of Unicode. It is a
    parameter, so that whatever is proved holds for every such function and for every
    encoding of the names as strings.
\<close>

record ('w, 'a) env =
  client_get :: "request \<Rightarrow> 'w \<Rightarrow> (api_error + page) \<times> 'w"
  client_post :: "string \<Rightarrow> 'a post_data \<Rightarrow> nat \<Rightarrow> 'w \<Rightarrow> (api_error + unit) \<times> 'w"
  time_time :: "'w \<Rightarrow> real \<times> 'w"
  logger_info :: "string \<Rightarrow> string \<Rightarrow> 'w \<Rightarrow> 'w"
  integration_objects_get :: "int \<Rightarrow> organization \<Rightarrow> 'w \<Rightarrow> integration option \<times> 'w"
  build_incident_attachment :: "alert_rule_action \<Rightarrow> incident \<Rightarrow> real option \<Rightarrow> string option \<Rightarrow> 'a"
  str_lower :: "string \<Rightarrow> string"

subsection \<open>Constants\<close>

definition MEMBER_PREFIX :: string where
  "MEMBER_PREFIX = ''@''"

definition CHANNEL_PREFIX :: string where
  "CHANNEL_PREFIX = ''#''"

definition strip_channel_chars :: string where
  "strip_channel_chars = concat [MEMBER_PREFIX, CHANNEL_PREFIX]"

definition SLACK_DEFAULT_TIMEOUT :: real where
  "SLACK_DEFAULT_TIMEOUT = 10"

text \<open>\<open>(list_name, result_name, prefix)\<close>, in the order in which they are searched.\<close>

definition LIST_TYPES :: "(string \<times> string \<times> string) list" where
  "LIST_TYPES = [(''conversations'', ''channels'', CHANNEL_PREFIX), (''users'', ''members'', MEMBER_PREFIX)]"

subsection \<open>String helpers\<close>

text \<open>\<open>name.lstrip(strip_channel_chars)\<close>: drop leading characters that occur in the set.\<close>

definition strip_channel_name :: "string \<Rightarrow> string" where
  "strip_channel_name name = dropWhile (\<lambda>ch. ch \<in> set strip_channel_chars) name"

text \<open>Python truth of \<open>cursor\<close>: \<open>None\<close> and the empty string are false.\<close>

fun truthy :: "string option \<Rightarrow> bool" where
  "truthy None = False"
| "truthy (Some s) = (s \<noteq> [])"

subsection \<open>The resolver\<close>

record search_state =
  id_data :: "channel_result option"
  found_duplicate :: bool

definition list_request :: "integration \<Rightarrow> string \<Rightarrow> string \<Rightarrow> request" where
  "list_request integ list_type cur =
     \<lparr>endpoint = ''/'' @ list_type @ ''.list'',
      authorization = ''Bearer '' @ access_token integ,
      exclude_archived = False,
      exclude_members = True,
      types = ''public_channel,private_channel'',
      cursor = cur,
      limit = 1000\<rparr>"

text \<open>
  The display-name test of the source, \<open>profile and profile.get("display_name") == name\<close>.
\<close>

fun display_name_is :: "string \<Rightarrow> item \<Rightarrow> bool" where
  "display_name_is name c =
     (case item_profile c of None \<Rightarrow> False | Some p \<Rightarrow> display_name p = Some name)"

text \<open>
  The body of \<open>for c in items[result_name]\<close>, one item: the update of \<open>id_data\<close> and
  \<open>found_duplicate\<close> made when the name did not match. The tuple \<open>id_data\<close> is never
  falsy once it is set, so \<open>if id_data\<close> tests whether it is set.
\<close>

definition record_display_name :: "string \<Rightarrow> string \<Rightarrow> string \<Rightarrow> item \<Rightarrow> search_state \<Rightarrow> search_state" where
  "record_display_name list_type prefix name c st =
     (if list_type = ''users'' then
        (if display_name_is name c then
           (if id_data st \<noteq> None then st\<lparr>found_duplicate := True\<rparr>
            else st\<lparr>id_data := Some (prefix, Some (item_id c), False)\<rparr>)
         else st)
      else st)"

text \<open>
  \<open>for c in items[result_name]\<close>: \<open>Inl r\<close> is \<open>return r\<close> from inside the loop, \<open>Inr st\<close> is
  the state after the last item.
\<close>

fun scan_items :: "('w, 'a) env \<Rightarrow> string \<Rightarrow> string \<Rightarrow> string \<Rightarrow> item list \<Rightarrow> search_state \<Rightarrow> channel_result + search_state" where
  "scan_items env list_type prefix name [] st = Inr st"
| "scan_items env list_type prefix name (c # cs) st =
     (if str_lower env (item_name c) = str_lower env name then Inl (prefix, Some (item_id c), False)
      else scan_items env list_type prefix name cs (record_display_name list_type prefix name c st))"

text \<open>
  \<open>while True\<close> for one list type. The loop ends only by a \<open>return\<close> or by \<open>break\<close>; the
  first argument bounds the number of pages fetched, and \<open>None\<close> means the bound was reached
  with the loop still running.
\<close>

datatype loop_exit = Return channel_result | Break search_state

fun while_loop :: "nat \<Rightarrow> ('w, 'a) env \<Rightarrow> integration \<Rightarrow> string \<Rightarrow> real \<Rightarrow> string \<times> string \<times> string \<Rightarrow> string \<Rightarrow> search_state \<Rightarrow> 'w \<Rightarrow> loop_exit option \<times> 'w" where
  "while_loop 0 env integ name time_to_quit lt cur st w = (None, w)"
| "while_loop (Suc fuel) env integ name time_to_quit (list_type, result_name, prefix) cur st w =
     (case client_get env (list_request integ list_type cur) w of
        (Inl e, w1) \<Rightarrow>
          (Some (Return (prefix, None, False)),
           logger_info env (''rule.slack.'' @ list_type @ ''_list_failed'') (str e) w1)
      | (Inr items, w1) \<Rightarrow>
          (case scan_items env list_type prefix name (entries items) st of
             Inl r \<Rightarrow> (Some (Return r), w1)
           | Inr st' \<Rightarrow>
               (case time_time env w1 of
                  (now, w2) \<Rightarrow>
                    if now > time_to_quit then (Some (Return (prefix, None, True)), w2)
                    else if \<not> truthy (next_cursor items) then (Some (Break st'), w2)
                    else while_loop fuel env integ name time_to_quit (list_type, result_name, prefix)
                           (the (next_cursor items)) st' w2)))"

text \<open>
  \<open>for list_type, result_name, prefix in list_types\<close> with the statements after the inner
  loop, and the final \<open>return (prefix, None, False)\<close>, which reads the \<open>prefix\<close> left by the
  last iteration (the argument \<open>last_prefix\<close>, \<open>None\<close> while unbound).
\<close>

fun for_loop :: "nat \<Rightarrow> ('w, 'a) env \<Rightarrow> integration \<Rightarrow> string \<Rightarrow> real \<Rightarrow> (string \<times> string \<times> string) list \<Rightarrow> string option \<Rightarrow> search_state \<Rightarrow> 'w \<Rightarrow> (exn + channel_result) option \<times> 'w" where
  "for_loop fuel env integ name time_to_quit [] last_prefix st w =
     (case last_prefix of
        None \<Rightarrow> (Some (Inl (UnboundLocalError ''prefix'')), w)
      | Some prefix \<Rightarrow> (Some (Inr (prefix, None, False)), w))"
| "for_loop fuel env integ name time_to_quit ((list_type, result_name, prefix) # rest) last_prefix st w =
     (case while_loop fuel env integ name time_to_quit (list_type, result_name, prefix) '''' st w of
        (None, w') \<Rightarrow> (None, w')
      | (Some (Return r), w') \<Rightarrow> (Some (Inr r), w')
      | (Some (Break st'), w') \<Rightarrow>
          if found_duplicate st' then (Some (Inl (DuplicateDisplayNameError name)), w')
          else (case id_data st' of
                  Some r \<Rightarrow> (Some (Inr r), w')
                | None \<Rightarrow> for_loop fuel env integ name time_to_quit rest (Some prefix) st' w'))"

definition get_channel_id_with_timeout :: "nat \<Rightarrow> ('w, 'a) env \<Rightarrow> integration \<Rightarrow> string \<Rightarrow> real \<Rightarrow> 'w \<Rightarrow> (exn + channel_result) option \<times> 'w" where
  "get_channel_id_with_timeout fuel env integ name timeout w =
     (case time_time env w of
        (t0, w0) \<Rightarrow>
          for_loop fuel env integ name (t0 + timeout) LIST_TYPES None
            \<lparr>id_data = None, found_duplicate = False\<rparr> w0)"

definition get_channel_id :: "nat \<Rightarrow> ('w, 'a) env \<Rightarrow> organization \<Rightarrow> integration \<Rightarrow> string \<Rightarrow> bool \<Rightarrow> 'w \<Rightarrow> (exn + channel_result) option \<times> 'w" where
  "get_channel_id fuel env org integ name use_async_lookup w =
     get_channel_id_with_timeout fuel env integ (strip_channel_name name)
       (if use_async_lookup then 3 * 60 else SLACK_DEFAULT_TIMEOUT) w"

subsection \<open>Complete listings\<close>

text \<open>
  \<open>listing env integ time_to_quit list_type cur w pgs w'\<close> describes the environment, not the
  resolver: from the world \<open>w\<close>, the listing of \<open>list_type\<close> consists of the pages \<open>pgs\<close>.
  The request with cursor \<open>cur\<close> is answered by the first page without \<open>ApiError\<close>, the clock
  read after it is not past \<open>time_to_quit\<close>, every page but the last carries a non-empty
  \<open>next_cursor\<close>, under which the next page is served, and the last page carries none.
  \<open>w'\<close> is the world after the last clock reading.
\<close>

fun listing :: "('w, 'a) env \<Rightarrow> integration \<Rightarrow> real \<Rightarrow> string \<Rightarrow> string \<Rightarrow> 'w \<Rightarrow> page list \<Rightarrow> 'w \<Rightarrow> bool" where
  "listing env integ time_to_quit list_type cur w [] w' = False"
| "listing env integ time_to_quit list_type cur w (pg # pgs) w' =
     (case client_get env (list_request integ list_type cur) w of
        (Inl e, w1) \<Rightarrow> False
      | (Inr served, w1) \<Rightarrow>
          served = pg \<and>
          (case time_time env w1 of
             (now, w2) \<Rightarrow>
               \<not> now > time_to_quit \<and>
               (if pgs = [] then \<not> truthy (next_cursor pg) \<and> w' = w2
                else truthy (next_cursor pg) \<and>
                     listing env integ time_to_quit list_type (the (next_cursor pg)) w2 pgs w')))"

text \<open>All items of a listing, in the order in which they are scanned.\<close>

definition all_entries :: "page list \<Rightarrow> item list" where
  "all_entries pgs = concat (map entries pgs)"

definition name_is :: "('w, 'a) env \<Rightarrow> string \<Rightarrow> item \<Rightarrow> bool" where
  "name_is env name c = (str_lower env (item_name c) = str_lower env name)"

subsection \<open>Positions in a run\<close>

text \<open>
  \<open>served env integ time_to_quit list_type cur w pgs cur' w'\<close> describes the environment too:
  from the world \<open>w\<close> the requests for \<open>list_type\<close>, beginning with cursor \<open>cur\<close>, have been
  answered by the pages \<open>pgs\<close> without \<open>ApiError\<close>, the clock read after each of them was not
  past \<open>time_to_quit\<close>, and each of them carried a non-empty \<open>next_cursor\<close>. The listing goes
  on: \<open>cur'\<close> is the cursor for the next request and \<open>w'\<close> the world in which it is made.
\<close>

fun served :: "('w, 'a) env \<Rightarrow> integration \<Rightarrow> real \<Rightarrow> string \<Rightarrow> string \<Rightarrow> 'w \<Rightarrow> page list \<Rightarrow> string \<Rightarrow> 'w \<Rightarrow> bool" where
  "served env integ time_to_quit list_type cur w [] cur' w' = (cur' = cur \<and> w' = w)"
| "served env integ time_to_quit list_type cur w (pg # pgs) cur' w' =
     (case client_get env (list_request integ list_type cur) w of
        (Inl e, w1) \<Rightarrow> False
      | (Inr answer, w1) \<Rightarrow>
          answer = pg \<and>
          (case time_time env w1 of
             (now, w2) \<Rightarrow>
               \<not> now > time_to_quit \<and> truthy (next_cursor pg) \<and>
               served env integ time_to_quit list_type (the (next_cursor pg)) w2 pgs cur' w'))"

text \<open>
  \<open>at_page env integ name time_to_quit wi cpages wc lt pgs cur wa\<close>: resolution, begun in the
  world \<open>wi\<close> (the one after the first clock reading), is about to request a page of the list
  type \<open>lt\<close> with cursor \<open>cur\<close> in the world \<open>wa\<close>, and nothing scanned so far has the query
  name. Either \<open>lt\<close> is \<open>conversations\<close>; or \<open>lt\<close> is \<open>users\<close> and the listing of
  \<open>conversations\<close> was the pages \<open>cpages\<close>, complete in the world \<open>wc\<close>. In both cases the pages
  \<open>pgs\<close> of \<open>lt\<close> have been served before this request; \<open>pgs\<close> is empty when the request is
  the first for \<open>lt\<close>.
\<close>

definition at_page :: "('w, 'a) env \<Rightarrow> integration \<Rightarrow> string \<Rightarrow> real \<Rightarrow> 'w \<Rightarrow> page list \<Rightarrow> 'w \<Rightarrow> string \<times> string \<times> string \<Rightarrow> page list \<Rightarrow> string \<Rightarrow> 'w \<Rightarrow> bool" where
  "at_page env integ name time_to_quit wi cpages wc lt pgs cur wa =
     ((lt = (''conversations'', ''channels'', ''#'') \<and> cpages = [] \<and> wc = wi
       \<or> lt = (''users'', ''members'', ''@'')
          \<and> listing env integ time_to_quit ''conversations'' '''' wi cpages wc
          \<and> (\<forall>c\<in>set (all_entries cpages). \<not> name_is env name c))
      \<and> served env integ time_to_quit (fst lt) '''' wc pgs cur wa
      \<and> (\<forall>c\<in>set (all_entries pgs). \<not> name_is env name c))"

subsection \<open>A scripted workspace\<close>

text \<open>
  A concrete world on which the resolver can be run: the answers that \<open>client.get\<close> and
  \<open>client.post\<close> will give and the readings that the clock will give, each consumed in
  order, and a trace of what was called. The integration table is a list of visible
  integrations with their identifiers.
\<close>

record world =
  responses :: "(api_error + page) list"
  post_responses :: "(api_error + unit) list"
  clock :: "real list"
  visible_integrations :: "(int \<times> integration) list"
  trace :: "string list"

definition scripted_get :: "request \<Rightarrow> world \<Rightarrow> (api_error + page) \<times> world" where
  "scripted_get req w =
     (let w1 = w\<lparr>trace := trace w @ [''GET '' @ endpoint req @ '' cursor='' @ cursor req]\<rparr> in
      case responses w of
        [] \<Rightarrow> (Inl (ApiError ''no response''), w1)
      | r # rs \<Rightarrow> (r, w1\<lparr>responses := rs\<rparr>))"

definition scripted_post :: "string \<Rightarrow> string post_data \<Rightarrow> nat \<Rightarrow> world \<Rightarrow> (api_error + unit) \<times> world" where
  "scripted_post ep body secs w =
     (let w1 = w\<lparr>trace := trace w @ [''POST '' @ ep @ '' channel='' @ channel body]\<rparr> in
      case post_responses w of
        [] \<Rightarrow> (Inr (), w1)
      | r # rs \<Rightarrow> (r, w1\<lparr>post_responses := rs\<rparr>))"

definition scripted_time :: "world \<Rightarrow> real \<times> world" where
  "scripted_time w =
     (case clock w of
        [] \<Rightarrow> (0, w)
      | t # ts \<Rightarrow> (t, w\<lparr>clock := ts\<rparr>))"

definition scripted_log :: "string \<Rightarrow> string \<Rightarrow> world \<Rightarrow> world" where
  "scripted_log msg err w = w\<lparr>trace := trace w @ [''LOG '' @ msg @ '' error='' @ err]\<rparr>"

definition scripted_integration :: "int \<Rightarrow> organization \<Rightarrow> world \<Rightarrow> integration option \<times> world" where
  "scripted_integration i org w = (map_of (visible_integrations w) i, w)"

text \<open>\<open>str.lower\<close> on the letters of ASCII, for running the resolver on names written in ASCII.\<close>

definition ascii_lower_char :: "char \<Rightarrow> char" where
  "ascii_lower_char ch =
     (case map_of (zip ''ABCDEFGHIJKLMNOPQRSTUVWXYZ'' ''abcdefghijklmnopqrstuvwxyz'') ch of
        None \<Rightarrow> ch
      | Some l \<Rightarrow> l)"

definition ascii_lower :: "string \<Rightarrow> string" where
  "ascii_lower s = map ascii_lower_char s"

definition scripted :: "(world, string) env" where
  "scripted =
     \<lparr>client_get = scripted_get,
      client_post = scripted_post,
      time_time = scripted_time,
      logger_info = scripted_log,
      integration_objects_get = scripted_integration,
      build_incident_attachment = (\<lambda>action inc metric_value alert_method. ''attachment''),
      str_lower = ascii_lower\<rparr>"

definition workspace :: "(api_error + page) list \<Rightarrow> real list \<Rightarrow> world" where
  "workspace rs ts =
     \<lparr>responses = rs, post_responses = [], clock = ts, visible_integrations = [], trace = []\<rparr>"

definition bot :: integration where
  "bot = \<lparr>access_token = ''xoxb''\<rparr>"

definition channel_named :: "string \<Rightarrow> string \<Rightarrow> item" where
  "channel_named n i = \<lparr>item_name = n, item_id = i, item_profile = None\<rparr>"

definition member_named :: "string \<Rightarrow> string \<Rightarrow> string \<Rightarrow> item" where
  "member_named n i d = \<lparr>item_name = n, item_id = i, item_profile = Some \<lparr>display_name = Some d\<rparr>\<rparr>"

definition last_page :: "item list \<Rightarrow> api_error + page" where
  "last_page cs = Inr \<lparr>entries = cs, next_cursor = None\<rparr>"

definition more_page :: "item list \<Rightarrow> string \<Rightarrow> api_error + page" where
  "more_page cs cur = Inr \<lparr>entries = cs, next_cursor = Some cur\<rparr>"

subsection \<open>The alert notification\<close>




section \<open>Notification settings (sentry/notifications/manager.py)\<close>




















subsection \<open>A store that records its calls\<close>





definition acme :: organization where
  "acme = \<lparr>organization_id = 3\<rparr>"

section \<open>Properties of channel resolution\<close>

subsection \<open>Unfolding on concrete inputs\<close>

lemmas run_defs = scripted_def scripted_get_def scripted_post_def scripted_time_def
  scripted_log_def scripted_integration_def workspace_def bot_def channel_named_def member_named_def
  last_page_def more_page_def list_request_def ascii_lower_def ascii_lower_char_def name_is_def
  all_entries_def get_channel_id_with_timeout_def get_channel_id_def LIST_TYPES_def
  CHANNEL_PREFIX_def MEMBER_PREFIX_def record_display_name_def SLACK_DEFAULT_TIMEOUT_def
  strip_channel_name_def strip_channel_chars_def

subsection \<open>Scanning without an exact match\<close>

lemma scan_items_match:
  "\<forall>x\<in>set pre. \<not> name_is env name x \<Longrightarrow> name_is env name c \<Longrightarrow>
   scan_items env list_type prefix name (pre @ c # post) st = Inl (prefix, Some (item_id c), False)"
  by (induction pre arbitrary: st) (auto simp: name_is_def)

lemma scan_items_no_match:
  "\<forall>c\<in>set cs. \<not> name_is env name c \<Longrightarrow>
   scan_items env list_type prefix name cs st
     = Inr (foldl (\<lambda>s c. record_display_name list_type prefix name c s) st cs)"
  by (induction cs arbitrary: st) (auto simp: name_is_def)

lemma while_loop_listing:
  "listing env integ time_to_quit list_type cur w pgs w' \<Longrightarrow>
   \<forall>c\<in>set (all_entries pgs). \<not> name_is env name c \<Longrightarrow>
   length pgs \<le> fuel \<Longrightarrow>
   while_loop fuel env integ name time_to_quit (list_type, result_name, prefix) cur st w
     = (Some (Break (foldl (\<lambda>s c. record_display_name list_type prefix name c s) st (all_entries pgs))), w')"
proof (induction pgs arbitrary: fuel cur w st)
  case Nil
  then show ?case by simp
next
  case (Cons pg pgs)
  then obtain n where fuel: "fuel = Suc n" and n: "length pgs \<le> n"
    by (cases fuel) auto
  from Cons.prems(1) obtain w1 where get: "client_get env (list_request integ list_type cur) w = (Inr pg, w1)"
    by (auto split: prod.splits sum.splits)
  obtain now w2 where tm: "time_time env w1 = (now, w2)"
    by (cases "time_time env w1")
  from Cons.prems(1) get tm have late: "\<not> now > time_to_quit"
    by simp
  from Cons.prems(2) have nm: "\<forall>c\<in>set (entries pg). \<not> name_is env name c"
    and nms: "\<forall>c\<in>set (all_entries pgs). \<not> name_is env name c"
    by (auto simp: all_entries_def)
  show ?case
  proof (cases "pgs = []")
    case True
    with Cons.prems(1) get tm have "\<not> truthy (next_cursor pg)" and "w' = w2"
      by auto
    with True get tm late nm show ?thesis
      by (simp add: fuel scan_items_no_match all_entries_def)
  next
    case False
    with Cons.prems(1) get tm have tr: "truthy (next_cursor pg)"
      and rest: "listing env integ time_to_quit list_type (the (next_cursor pg)) w2 pgs w'"
      by auto
    from Cons.IH [OF rest nms n] get tm late nm tr show ?thesis
      by (simp add: fuel scan_items_no_match all_entries_def)
  qed
qed

lemma fold_record_other:
  "list_type \<noteq> ''users'' \<Longrightarrow>
   foldl (\<lambda>s c. record_display_name list_type prefix name c s) st cs = st"
  by (induction cs arbitrary: st) (auto simp: record_display_name_def)

lemma fold_record_found_duplicate:
  "found_duplicate (foldl (\<lambda>s c. record_display_name ''users'' prefix name c s) st cs)
     = (found_duplicate st \<or>
        (if id_data st = None then 2 \<le> length (filter (display_name_is name) cs)
         else 1 \<le> length (filter (display_name_is name) cs)))"
  by (induction cs arbitrary: st) (auto simp: record_display_name_def)

lemma fold_record_id_data:
  "id_data (foldl (\<lambda>s c. record_display_name ''users'' prefix name c s) st cs)
     = (case id_data st of
          Some r \<Rightarrow> Some r
        | None \<Rightarrow> (case filter (display_name_is name) cs of
                     [] \<Rightarrow> None
                   | c # _ \<Rightarrow> Some (prefix, Some (item_id c), False)))"
  by (induction cs arbitrary: st) (auto simp: record_display_name_def split: option.splits)

lemma no_display_name_filter:
  "\<forall>c\<in>set cs. \<not> display_name_is name c \<Longrightarrow> filter (display_name_is name) cs = []"
  by (induction cs) auto

subsection \<open>The shape of results\<close>

lemma scan_items_shape:
  "\<forall>p cid t. id_data st = Some (p, cid, t) \<longrightarrow> \<not> t \<Longrightarrow>
   (\<forall>r. scan_items env list_type prefix name cs st = Inl r \<longrightarrow> \<not> snd (snd r)) \<and>
   (\<forall>st'. scan_items env list_type prefix name cs st = Inr st' \<longrightarrow>
      (\<forall>p cid t. id_data st' = Some (p, cid, t) \<longrightarrow> \<not> t))"
proof (induction cs arbitrary: st)
  case Nil
  then show ?case by simp
next
  case (Cons c cs)
  have "\<forall>p cid t. id_data (record_display_name list_type prefix name c st) = Some (p, cid, t) \<longrightarrow> \<not> t"
    using Cons.prems by (auto simp: record_display_name_def)
  from Cons.IH [OF this] show ?case by auto
qed

lemma while_loop_shape:
  "\<forall>p cid t. id_data st = Some (p, cid, t) \<longrightarrow> \<not> t \<Longrightarrow>
   while_loop fuel env integ name time_to_quit lt cur st w = (Some x, w') \<Longrightarrow>
   (case x of
      Return r \<Rightarrow> fst (snd r) \<noteq> None \<longrightarrow> \<not> snd (snd r)
    | Break st' \<Rightarrow> (\<forall>p cid t. id_data st' = Some (p, cid, t) \<longrightarrow> \<not> t))"
proof (induction fuel arbitrary: cur st w)
  case 0
  then show ?case by simp
next
  case (Suc fuel)
  obtain list_type result_name prefix where lt: "lt = (list_type, result_name, prefix)"
    by (cases lt)
  show ?case
  proof (cases "client_get env (list_request integ list_type cur) w")
    case (Pair res w1)
    show ?thesis
    proof (cases res)
      case (Inl e)
      with Suc.prems Pair lt show ?thesis by auto
    next
      case (Inr pg)
      note shape = scan_items_shape [OF Suc.prems(1), of env list_type prefix name "entries pg"]
      show ?thesis
      proof (cases "scan_items env list_type prefix name (entries pg) st")
        case (Inl r)
        with shape Suc.prems(2) Pair Inr lt show ?thesis by auto
      next
        case st': (Inr st')
        with shape have inv': "\<forall>p cid t. id_data st' = Some (p, cid, t) \<longrightarrow> \<not> t"
          by simp
        obtain now w2 where tm: "time_time env w1 = (now, w2)"
          by (cases "time_time env w1")
        show ?thesis
        proof (cases "now > time_to_quit")
          case True
          with Suc.prems(2) Pair Inr st' tm lt show ?thesis by auto
        next
          case late: False
          show ?thesis
          proof (cases "truthy (next_cursor pg)")
            case False
            with Suc.prems(2) Pair Inr st' tm lt late inv' show ?thesis by auto
          next
            case True
            with Suc.prems(2) Pair Inr st' tm lt late
            have "while_loop fuel env integ name time_to_quit lt (the (next_cursor pg)) st' w2 = (Some x, w')"
              by simp
            from Suc.IH [OF inv' this] show ?thesis .
          qed
        qed
      qed
    qed
  qed
qed

lemma for_loop_shape:
  "\<forall>p cid t. id_data st = Some (p, cid, t) \<longrightarrow> \<not> t \<Longrightarrow>
   for_loop fuel env integ name time_to_quit lts last_prefix st w = (Some (Inr (prefix, channel_id, timed_out)), w') \<Longrightarrow>
   channel_id \<noteq> None \<longrightarrow> \<not> timed_out"
proof (induction lts arbitrary: last_prefix st w)
  case Nil
  then show ?case by (auto split: option.splits)
next
  case (Cons lt lts)
  obtain list_type result_name p where lt: "lt = (list_type, result_name, p)"
    by (cases lt)
  obtain res w1 where wl: "while_loop fuel env integ name time_to_quit lt '''' st w = (res, w1)"
    by (cases "while_loop fuel env integ name time_to_quit lt '''' st w")
  show ?case
  proof (cases res)
    case None
    with Cons.prems(2) wl lt show ?thesis by simp
  next
    case (Some x)
    note shape = while_loop_shape [OF Cons.prems(1) wl [unfolded Some]]
    show ?thesis
    proof (cases x)
      case (Return r)
      with shape Cons.prems(2) wl lt Some show ?thesis by auto
    next
      case (Break st')
      with shape have inv': "\<forall>p cid t. id_data st' = Some (p, cid, t) \<longrightarrow> \<not> t"
        by simp
      show ?thesis
      proof (cases "found_duplicate st'")
        case True
        with Cons.prems(2) wl lt Some Break show ?thesis by simp
      next
        case nodup: False
        show ?thesis
        proof (cases "id_data st'")
          case None
          with Cons.prems(2) wl lt Some Break nodup
          have "for_loop fuel env integ name time_to_quit lts (Some p) st' w1
                  = (Some (Inr (prefix, channel_id, timed_out)), w')"
            by simp
          from Cons.IH [OF inv' this] show ?thesis .
        next
          case (Some r)
          with Cons.prems(2) wl lt \<open>res = Some x\<close> Break nodup inv' show ?thesis by auto
        qed
      qed
    qed
  qed
qed

subsection \<open>Runs up to a page\<close>

lemma while_loop_served:
  "served env integ time_to_quit list_type cur w pgs cur' w' \<Longrightarrow>
   \<forall>c\<in>set (all_entries pgs). \<not> name_is env name c \<Longrightarrow>
   while_loop (length pgs + k) env integ name time_to_quit (list_type, result_name, prefix) cur st w
     = while_loop k env integ name time_to_quit (list_type, result_name, prefix) cur'
         (foldl (\<lambda>s c. record_display_name list_type prefix name c s) st (all_entries pgs)) w'"
proof (induction pgs arbitrary: cur w st)
  case Nil
  then show ?case by (simp add: all_entries_def)
next
  case (Cons pg pgs)
  from Cons.prems(1) obtain w1 where get: "client_get env (list_request integ list_type cur) w = (Inr pg, w1)"
    by (auto split: prod.splits sum.splits)
  obtain now w2 where tm: "time_time env w1 = (now, w2)"
    by (cases "time_time env w1")
  from Cons.prems(1) get tm have late: "\<not> now > time_to_quit" and tr: "truthy (next_cursor pg)"
    and rest: "served env integ time_to_quit list_type (the (next_cursor pg)) w2 pgs cur' w'"
    by auto
  from Cons.prems(2) have nm: "\<forall>c\<in>set (entries pg). \<not> name_is env name c"
    and nms: "\<forall>c\<in>set (all_entries pgs). \<not> name_is env name c"
    by (auto simp: all_entries_def)
  from Cons.IH [OF rest nms] get tm late tr nm show ?case
    by (simp add: scan_items_no_match all_entries_def)
qed

lemma at_page_jump:
  assumes at: "at_page env integ name time_to_quit wi cpages wc (list_type, result_name, prefix) pgs cur wa"
    and fp: "length pgs < fuel"
  shows "while_loop fuel env integ name time_to_quit (list_type, result_name, prefix) ''''
           \<lparr>id_data = None, found_duplicate = False\<rparr> wc
      = while_loop (fuel - length pgs) env integ name time_to_quit (list_type, result_name, prefix) cur
          (foldl (\<lambda>s c. record_display_name list_type prefix name c s)
             \<lparr>id_data = None, found_duplicate = False\<rparr> (all_entries pgs)) wa"
proof -
  from fp have split: "fuel = length pgs + (fuel - length pgs)"
    by simp
  from at have nm: "\<forall>c\<in>set (all_entries pgs). \<not> name_is env name c"
    and srv: "served env integ time_to_quit list_type '''' wc pgs cur wa"
    by (auto simp: at_page_def)
  show ?thesis
    using while_loop_served [OF srv nm, of "fuel - length pgs" result_name prefix
        "\<lparr>id_data = None, found_duplicate = False\<rparr>"] split
    by simp
qed

lemma at_page_cases:
  assumes at: "at_page env integ name time_to_quit wi cpages wc (list_type, result_name, prefix) pgs cur wa"
    and fc: "length cpages \<le> fuel"
  shows "(list_type, result_name, prefix) = (''conversations'', ''channels'', ''#'') \<and> wc = wi
         \<or> (list_type, result_name, prefix) = (''users'', ''members'', ''@'')
            \<and> while_loop fuel env integ name time_to_quit (''conversations'', ''channels'', ''#'') ''''
                 \<lparr>id_data = None, found_duplicate = False\<rparr> wi
               = (Some (Break \<lparr>id_data = None, found_duplicate = False\<rparr>), wc)"
proof -
  from at consider
      (conv) "(list_type, result_name, prefix) = (''conversations'', ''channels'', ''#'')" "wc = wi"
    | (usr) "(list_type, result_name, prefix) = (''users'', ''members'', ''@'')"
        "listing env integ time_to_quit ''conversations'' '''' wi cpages wc"
        "\<forall>c\<in>set (all_entries cpages). \<not> name_is env name c"
    by (auto simp: at_page_def)
  then show ?thesis
  proof cases
    case conv
    then show ?thesis by simp
  next
    case usr
    have "while_loop fuel env integ name time_to_quit (''conversations'', ''channels'', ''#'') ''''
            \<lparr>id_data = None, found_duplicate = False\<rparr> wi
          = (Some (Break \<lparr>id_data = None, found_duplicate = False\<rparr>), wc)"
      using while_loop_listing [OF usr(2) usr(3) fc] by (simp add: fold_record_other)
    with usr(1) show ?thesis by simp
  qed
qed

lemma run_returns_at_page:
  assumes tm: "time_time env w = (ti, wi)"
    and at: "at_page env integ name (ti + timeout) wi cpages wc (list_type, result_name, prefix) pgs cur wa"
    and fc: "length cpages \<le> fuel" and fp: "length pgs < fuel"
    and step: "while_loop (fuel - length pgs) env integ name (ti + timeout) (list_type, result_name, prefix) cur
               (foldl (\<lambda>s c. record_display_name list_type prefix name c s)
                  \<lparr>id_data = None, found_duplicate = False\<rparr> (all_entries pgs)) wa
             = (Some (Return r), w')"
  shows "get_channel_id_with_timeout fuel env integ name timeout w = (Some (Inr r), w')"
proof -
  note jump = at_page_jump [OF at fp, unfolded step]
  from at_page_cases [OF at fc] show ?thesis
  proof (elim disjE conjE)
    assume "(list_type, result_name, prefix) = (''conversations'', ''channels'', ''#'')" and "wc = wi"
    with jump tm show ?thesis
      by (simp add: get_channel_id_with_timeout_def LIST_TYPES_def CHANNEL_PREFIX_def MEMBER_PREFIX_def)
  next
    assume "(list_type, result_name, prefix) = (''users'', ''members'', ''@'')"
      and "while_loop fuel env integ name (ti + timeout) (''conversations'', ''channels'', ''#'') ''''
             \<lparr>id_data = None, found_duplicate = False\<rparr> wi
           = (Some (Break \<lparr>id_data = None, found_duplicate = False\<rparr>), wc)"
    with jump tm show ?thesis
      by (simp add: get_channel_id_with_timeout_def LIST_TYPES_def CHANNEL_PREFIX_def MEMBER_PREFIX_def)
  qed
qed

lemma run_raises_at_users_page:
  assumes tm: "time_time env w = (ti, wi)"
    and at: "at_page env integ name (ti + timeout) wi cpages wc (''users'', ''members'', ''@'') pgs cur wa"
    and fc: "length cpages \<le> fuel" and fp: "length pgs < fuel"
    and step: "while_loop (fuel - length pgs) env integ name (ti + timeout) (''users'', ''members'', ''@'') cur
               (foldl (\<lambda>s c. record_display_name ''users'' ''@'' name c s)
                  \<lparr>id_data = None, found_duplicate = False\<rparr> (all_entries pgs)) wa
             = (Some (Break st'), w')"
    and dup: "found_duplicate st'"
  shows "get_channel_id_with_timeout fuel env integ name timeout w
           = (Some (Inl (DuplicateDisplayNameError name)), w')"
proof -
  note jump = at_page_jump [OF at fp, unfolded step]
  from at_page_cases [OF at fc]
  have "while_loop fuel env integ name (ti + timeout) (''conversations'', ''channels'', ''#'') ''''
             \<lparr>id_data = None, found_duplicate = False\<rparr> wi
           = (Some (Break \<lparr>id_data = None, found_duplicate = False\<rparr>), wc)"
    by simp
  with jump tm dup show ?thesis
    by (simp add: get_channel_id_with_timeout_def LIST_TYPES_def CHANNEL_PREFIX_def MEMBER_PREFIX_def)
qed

subsection \<open>Exact name matches\<close>

text \<open>
  C1. Take any point of a run at which a page is requested: in \<open>conversations\<close> after any
  number of its pages, or in \<open>users\<close> after the complete listing of \<open>conversations\<close> and any
  number of pages of \<open>users\<close>, with no item scanned so far having the query name up to case.
  If the page now fetched holds an item \<open>c\<close> whose name equals the query name up to case, and
  no item before it on that page does, then resolution returns \<open>(prefix, id of c, False)\<close> with
  the prefix of the current list type. The world returned is the one right after that fetch:
  the clock is not read again, so the deadline does not matter for this page, and what the
  display names on this or on earlier pages of \<open>users\<close> have recorded does not matter either.
\<close>

theorem exact_name_match_returns_found:
  assumes "time_time env w = (ti, wi)"
    and "at_page env integ name (ti + timeout) wi cpages wc (list_type, result_name, prefix) pgs cur wa"
    and "client_get env (list_request integ list_type cur) wa = (Inr pg, wb)"
    and "entries pg = pre @ c # post"
    and "\<forall>x\<in>set pre. \<not> name_is env name x"
    and "name_is env name c"
    and "length cpages \<le> fuel" and "length pgs < fuel"
  shows "get_channel_id_with_timeout fuel env integ name timeout w
           = (Some (Inr (prefix, Some (item_id c), False)), wb)"
proof -
  from assms(8) obtain k where k: "fuel - length pgs = Suc k"
    by (cases "fuel - length pgs") auto
  have "while_loop (fuel - length pgs) env integ name (ti + timeout) (list_type, result_name, prefix) cur
          (foldl (\<lambda>s c. record_display_name list_type prefix name c s)
             \<lparr>id_data = None, found_duplicate = False\<rparr> (all_entries pgs)) wa
        = (Some (Return (prefix, Some (item_id c), False)), wb)"
    using assms(3-6) by (simp add: k scan_items_match)
  from run_returns_at_page [OF assms(1) assms(2) assms(7) assms(8) this] show ?thesis .
qed

theorem exact_name_match_returns_found_witness:
  "get_channel_id_with_timeout 2 scripted bot ''general'' 10
     (workspace [more_page [channel_named ''random'' ''C1''] ''p2'',
                 last_page [channel_named ''General'' ''C2'', channel_named ''general'' ''C3'']] [0, 1, 99])
   = (Some (Inr (''#'', Some ''C2'', False)),
      (workspace [] [99])
        \<lparr>trace := [''GET /conversations.list cursor='', ''GET /conversations.list cursor=p2'']\<rparr>)
   \<and> get_channel_id_with_timeout 2 scripted bot ''general'' 10
     (workspace [last_page [channel_named ''random'' ''C1''],
                 more_page [member_named ''j1'' ''U1'' ''general'', member_named ''j2'' ''U2'' ''general''] ''p2'',
                 last_page [member_named ''j3'' ''U3'' ''general'', member_named ''General'' ''U7'' ''G'']]
        [0, 1, 2, 99])
   = (Some (Inr (''@'', Some ''U7'', False)),
      (workspace [] [99])
        \<lparr>trace := [''GET /conversations.list cursor='', ''GET /users.list cursor='',
                    ''GET /users.list cursor=p2'']\<rparr>)"
proof -
  have second_conversations_page:
    "get_channel_id_with_timeout 2 scripted bot ''general'' 10
       (workspace [more_page [channel_named ''random'' ''C1''] ''p2'',
                   last_page [channel_named ''General'' ''C2'', channel_named ''general'' ''C3'']] [0, 1, 99])
     = (Some (Inr (''#'', Some (item_id (channel_named ''General'' ''C2'')), False)),
        (workspace [] [99])
          \<lparr>trace := [''GET /conversations.list cursor='', ''GET /conversations.list cursor=p2'']\<rparr>)"
    by (rule exact_name_match_returns_found
          [where ti = 0
             and wi = "workspace [more_page [channel_named ''random'' ''C1''] ''p2'',
                   last_page [channel_named ''General'' ''C2'', channel_named ''general'' ''C3'']] [1, 99]"
             and cpages = "[]"
             and wc = "workspace [more_page [channel_named ''random'' ''C1''] ''p2'',
                   last_page [channel_named ''General'' ''C2'', channel_named ''general'' ''C3'']] [1, 99]"
             and list_type = "''conversations''" and result_name = "''channels''"
             and pgs = "[\<lparr>entries = [channel_named ''random'' ''C1''], next_cursor = Some ''p2''\<rparr>]"
             and cur = "''p2''"
             and wa = "(workspace [last_page [channel_named ''General'' ''C2'', channel_named ''general'' ''C3'']] [99])
                   \<lparr>trace := [''GET /conversations.list cursor='']\<rparr>"
             and pg = "\<lparr>entries = [channel_named ''General'' ''C2'', channel_named ''general'' ''C3''],
                        next_cursor = None\<rparr>"
             and pre = "[]" and post = "[channel_named ''general'' ''C3'']"])
       (simp_all add: run_defs at_page_def)
  have second_users_page:
    "get_channel_id_with_timeout 2 scripted bot ''general'' 10
       (workspace [last_page [channel_named ''random'' ''C1''],
                   more_page [member_named ''j1'' ''U1'' ''general'', member_named ''j2'' ''U2'' ''general''] ''p2'',
                   last_page [member_named ''j3'' ''U3'' ''general'', member_named ''General'' ''U7'' ''G'']]
          [0, 1, 2, 99])
     = (Some (Inr (''@'', Some (item_id (member_named ''General'' ''U7'' ''G'')), False)),
        (workspace [] [99])
          \<lparr>trace := [''GET /conversations.list cursor='', ''GET /users.list cursor='',
                      ''GET /users.list cursor=p2'']\<rparr>)"
    by (rule exact_name_match_returns_found
          [where ti = 0
             and wi = "workspace [last_page [channel_named ''random'' ''C1''],
                   more_page [member_named ''j1'' ''U1'' ''general'', member_named ''j2'' ''U2'' ''general''] ''p2'',
                   last_page [member_named ''j3'' ''U3'' ''general'', member_named ''General'' ''U7'' ''G'']]
                   [1, 2, 99]"
             and cpages = "[\<lparr>entries = [channel_named ''random'' ''C1''], next_cursor = None\<rparr>]"
             and wc = "(workspace [more_page [member_named ''j1'' ''U1'' ''general'', member_named ''j2'' ''U2'' ''general''] ''p2'',
                   last_page [member_named ''j3'' ''U3'' ''general'', member_named ''General'' ''U7'' ''G'']]
                   [2, 99])\<lparr>trace := [''GET /conversations.list cursor='']\<rparr>"
             and list_type = "''users''" and result_name = "''members''"
             and pgs = "[\<lparr>entries = [member_named ''j1'' ''U1'' ''general'', member_named ''j2'' ''U2'' ''general''],
                          next_cursor = Some ''p2''\<rparr>]"
             and cur = "''p2''"
             and wa = "(workspace [last_page [member_named ''j3'' ''U3'' ''general'', member_named ''General'' ''U7'' ''G'']]
                   [99])\<lparr>trace := [''GET /conversations.list cursor='', ''GET /users.list cursor='']\<rparr>"
             and pg = "\<lparr>entries = [member_named ''j3'' ''U3'' ''general'', member_named ''General'' ''U7'' ''G''],
                        next_cursor = None\<rparr>"
             and pre = "[member_named ''j3'' ''U3'' ''general'']" and post = "[]"])
       (simp_all add: run_defs at_page_def)
  from second_conversations_page second_users_page show ?thesis
    by (simp add: channel_named_def member_named_def)
qed

subsection \<open>Transport errors\<close>

text \<open>
  C2. Take any point of a run at which a page is requested, as for C1. If that request
  raises \<open>ApiError\<close>, resolution logs the failure under the name of the list type and returns
  \<open>(prefix, None, False)\<close> with the prefix of the current list type. The world returned is the
  one after the failed request and the log entry: an error in \<open>conversations\<close> is followed by
  no request for \<open>users\<close>, and an error in \<open>users\<close> returns no recorded candidate.
\<close>

theorem transport_error_returns_not_found:
  assumes "time_time env w = (ti, wi)"
    and "at_page env integ name (ti + timeout) wi cpages wc (list_type, result_name, prefix) pgs cur wa"
    and "client_get env (list_request integ list_type cur) wa = (Inl e, wb)"
    and "length cpages \<le> fuel" and "length pgs < fuel"
  shows "get_channel_id_with_timeout fuel env integ name timeout w
           = (Some (Inr (prefix, None, False)),
              logger_info env (''rule.slack.'' @ list_type @ ''_list_failed'') (str e) wb)"
proof -
  from assms(5) obtain k where k: "fuel - length pgs = Suc k"
    by (cases "fuel - length pgs") auto
  have "while_loop (fuel - length pgs) env integ name (ti + timeout) (list_type, result_name, prefix) cur
          (foldl (\<lambda>s c. record_display_name list_type prefix name c s)
             \<lparr>id_data = None, found_duplicate = False\<rparr> (all_entries pgs)) wa
        = (Some (Return (prefix, None, False)),
           logger_info env (''rule.slack.'' @ list_type @ ''_list_failed'') (str e) wb)"
    using assms(3) by (simp add: k)
  from run_returns_at_page [OF assms(1) assms(2) assms(4) assms(5) this] show ?thesis .
qed

theorem transport_error_returns_not_found_witness:
  "get_channel_id_with_timeout 2 scripted bot ''jane'' 10
     (workspace [more_page [channel_named ''random'' ''C1''] ''p2'',
                 Inl (ApiError ''ratelimited''),
                 last_page [member_named ''jane'' ''U2'' ''J'']] [0, 1])
   = (Some (Inr (''#'', None, False)),
      (workspace [last_page [member_named ''jane'' ''U2'' ''J'']] [])
        \<lparr>trace := [''GET /conversations.list cursor='', ''GET /conversations.list cursor=p2'',
                    ''LOG rule.slack.conversations_list_failed error=ratelimited'']\<rparr>)
   \<and> get_channel_id_with_timeout 2 scripted bot ''jane'' 10
     (workspace [last_page [channel_named ''random'' ''C1''],
                 more_page [member_named ''j1'' ''U1'' ''jane''] ''p2'',
                 Inl (ApiError ''fatal'')] [0, 1, 2])
   = (Some (Inr (''@'', None, False)),
      (workspace [] [])
        \<lparr>trace := [''GET /conversations.list cursor='', ''GET /users.list cursor='',
                    ''GET /users.list cursor=p2'', ''LOG rule.slack.users_list_failed error=fatal'']\<rparr>)"
proof -
  have second_conversations_page:
    "get_channel_id_with_timeout 2 scripted bot ''jane'' 10
       (workspace [more_page [channel_named ''random'' ''C1''] ''p2'',
                   Inl (ApiError ''ratelimited''),
                   last_page [member_named ''jane'' ''U2'' ''J'']] [0, 1])
     = (Some (Inr (''#'', None, False)),
        logger_info scripted (''rule.slack.'' @ ''conversations'' @ ''_list_failed'') (str (ApiError ''ratelimited''))
          ((workspace [last_page [member_named ''jane'' ''U2'' ''J'']] [])
             \<lparr>trace := [''GET /conversations.list cursor='', ''GET /conversations.list cursor=p2'']\<rparr>))"
    by (rule transport_error_returns_not_found
          [where ti = 0
             and wi = "workspace [more_page [channel_named ''random'' ''C1''] ''p2'',
                   Inl (ApiError ''ratelimited''),
                   last_page [member_named ''jane'' ''U2'' ''J'']] [1]"
             and cpages = "[]"
             and wc = "workspace [more_page [channel_named ''random'' ''C1''] ''p2'',
                   Inl (ApiError ''ratelimited''),
                   last_page [member_named ''jane'' ''U2'' ''J'']] [1]"
             and result_name = "''channels''"
             and pgs = "[\<lparr>entries = [channel_named ''random'' ''C1''], next_cursor = Some ''p2''\<rparr>]"
             and cur = "''p2''"
             and wa = "(workspace [Inl (ApiError ''ratelimited''), last_page [member_named ''jane'' ''U2'' ''J'']] [])
                   \<lparr>trace := [''GET /conversations.list cursor='']\<rparr>"])
       (simp_all add: run_defs at_page_def)
  have second_users_page:
    "get_channel_id_with_timeout 2 scripted bot ''jane'' 10
       (workspace [last_page [channel_named ''random'' ''C1''],
                   more_page [member_named ''j1'' ''U1'' ''jane''] ''p2'',
                   Inl (ApiError ''fatal'')] [0, 1, 2])
     = (Some (Inr (''@'', None, False)),
        logger_info scripted (''rule.slack.'' @ ''users'' @ ''_list_failed'') (str (ApiError ''fatal''))
          ((workspace [] [])
             \<lparr>trace := [''GET /conversations.list cursor='', ''GET /users.list cursor='',
                         ''GET /users.list cursor=p2'']\<rparr>))"
    by (rule transport_error_returns_not_found
          [where ti = 0
             and wi = "workspace [last_page [channel_named ''random'' ''C1''],
                   more_page [member_named ''j1'' ''U1'' ''jane''] ''p2'',
                   Inl (ApiError ''fatal'')] [1, 2]"
             and cpages = "[\<lparr>entries = [channel_named ''random'' ''C1''], next_cursor = None\<rparr>]"
             and wc = "(workspace [more_page [member_named ''j1'' ''U1'' ''jane''] ''p2'',
                   Inl (ApiError ''fatal'')] [2])\<lparr>trace := [''GET /conversations.list cursor='']\<rparr>"
             and result_name = "''members''"
             and pgs = "[\<lparr>entries = [member_named ''j1'' ''U1'' ''jane''], next_cursor = Some ''p2''\<rparr>]"
             and cur = "''p2''"
             and wa = "(workspace [Inl (ApiError ''fatal'')] [])
                   \<lparr>trace := [''GET /conversations.list cursor='', ''GET /users.list cursor='']\<rparr>"])
       (simp_all add: run_defs at_page_def)
  from second_conversations_page second_users_page show ?thesis
    by (simp add: scripted_def scripted_log_def workspace_def)
qed

subsection \<open>Duplicate display names\<close>



text \<open>
  C4. The source reads the clock after every page, inside the loop, and looks at
  \<open>found_duplicate\<close> only after the loop. Take any point of a run at which a page of \<open>users\<close>
  is requested. If the page is served, holds no item with the query name up to case, and the
  items of \<open>users\<close> scanned up to the end of it include at least two with the query name as
  display name, then: when the clock read after the page is past the deadline, resolution
  returns \<open>("@", None, True)\<close>, it does not raise and returns no candidate; when the clock is
  not past the deadline and the page carries no continuation cursor, resolution raises
  \<open>DuplicateDisplayNameError\<close> with the query name.
\<close>

theorem recorded_duplicates_yield_to_timeout:
  assumes "time_time env w = (ti, wi)"
    and "at_page env integ name (ti + timeout) wi cpages wc (''users'', ''members'', ''@'') pgs cur wa"
    and "client_get env (list_request integ ''users'' cur) wa = (Inr pg, wb)"
    and "\<forall>c\<in>set (entries pg). \<not> name_is env name c"
    and "2 \<le> length (filter (display_name_is name) (all_entries pgs @ entries pg))"
    and "time_time env wb = (now, wd)"
    and "length cpages \<le> fuel" and "length pgs < fuel"
  shows "(now > ti + timeout \<longrightarrow>
            get_channel_id_with_timeout fuel env integ name timeout w
              = (Some (Inr (''@'', None, True)), wd))
       \<and> (\<not> now > ti + timeout \<and> \<not> truthy (next_cursor pg) \<longrightarrow>
            get_channel_id_with_timeout fuel env integ name timeout w
              = (Some (Inl (DuplicateDisplayNameError name)), wd))"
proof -
  let ?init = "\<lparr>id_data = None, found_duplicate = False\<rparr>"
  let ?before = "foldl (\<lambda>s c. record_display_name ''users'' ''@'' name c s) ?init (all_entries pgs)"
  let ?after = "foldl (\<lambda>s c. record_display_name ''users'' ''@'' name c s) ?init (all_entries pgs @ entries pg)"
  from assms(8) obtain k where k: "fuel - length pgs = Suc k"
    by (cases "fuel - length pgs") auto
  have scan: "scan_items env ''users'' ''@'' name (entries pg) ?before = Inr ?after"
    using assms(4) by (simp add: scan_items_no_match)
  have dup: "found_duplicate ?after"
    using assms(5) by (simp only: fold_record_found_duplicate) simp
  show ?thesis
  proof (intro conjI impI)
    assume "now > ti + timeout"
    then have "while_loop (fuel - length pgs) env integ name (ti + timeout) (''users'', ''members'', ''@'') cur ?before wa
        = (Some (Return (''@'', None, True)), wd)"
      using assms(3) assms(6) scan by (simp add: k)
    from run_returns_at_page [OF assms(1) assms(2) assms(7) assms(8) this]
    show "get_channel_id_with_timeout fuel env integ name timeout w = (Some (Inr (''@'', None, True)), wd)" .
  next
    assume "\<not> now > ti + timeout \<and> \<not> truthy (next_cursor pg)"
    then have "while_loop (fuel - length pgs) env integ name (ti + timeout) (''users'', ''members'', ''@'') cur ?before wa
        = (Some (Break ?after), wd)"
      using assms(3) assms(6) scan by (simp add: k)
    from run_raises_at_users_page [OF assms(1) assms(2) assms(7) assms(8) this dup]
    show "get_channel_id_with_timeout fuel env integ name timeout w
            = (Some (Inl (DuplicateDisplayNameError name)), wd)" .
  qed
qed

theorem recorded_duplicates_yield_to_timeout_witness:
  "get_channel_id_with_timeout 2 scripted bot ''Jane Doe'' 10
     (workspace [last_page [channel_named ''general'' ''C1''],
                 more_page [member_named ''jane'' ''U1'' ''Jane Doe'', member_named ''jd'' ''U2'' ''Jane Doe''] ''p2'',
                 more_page [member_named ''bob'' ''U3'' ''Bob''] ''p3''] [0, 1, 2, 11])
   = (Some (Inr (''@'', None, True)),
      (workspace [] [])
        \<lparr>trace := [''GET /conversations.list cursor='', ''GET /users.list cursor='',
                    ''GET /users.list cursor=p2'']\<rparr>)
   \<and> get_channel_id_with_timeout 2 scripted bot ''Jane Doe'' 10
     (workspace [last_page [channel_named ''general'' ''C1''],
                 more_page [member_named ''jane'' ''U1'' ''Jane Doe'', member_named ''jd'' ''U2'' ''Jane Doe''] ''p2'',
                 last_page [member_named ''bob'' ''U3'' ''Bob'']] [0, 1, 2, 9])
   = (Some (Inl (DuplicateDisplayNameError ''Jane Doe'')),
      (workspace [] [])
        \<lparr>trace := [''GET /conversations.list cursor='', ''GET /users.list cursor='',
                    ''GET /users.list cursor=p2'']\<rparr>)"
proof -
  have expired:
    "get_channel_id_with_timeout 2 scripted bot ''Jane Doe'' 10
       (workspace [last_page [channel_named ''general'' ''C1''],
                   more_page [member_named ''jane'' ''U1'' ''Jane Doe'', member_named ''jd'' ''U2'' ''Jane Doe''] ''p2'',
                   more_page [member_named ''bob'' ''U3'' ''Bob''] ''p3''] [0, 1, 2, 11])
     = (Some (Inr (''@'', None, True)),
        (workspace [] [])
          \<lparr>trace := [''GET /conversations.list cursor='', ''GET /users.list cursor='',
                      ''GET /users.list cursor=p2'']\<rparr>)"
    by (rule recorded_duplicates_yield_to_timeout
          [where ti = 0 and now = 11
             and wi = "workspace [last_page [channel_named ''general'' ''C1''],
                   more_page [member_named ''jane'' ''U1'' ''Jane Doe'', member_named ''jd'' ''U2'' ''Jane Doe''] ''p2'',
                   more_page [member_named ''bob'' ''U3'' ''Bob''] ''p3''] [1, 2, 11]"
             and cpages = "[\<lparr>entries = [channel_named ''general'' ''C1''], next_cursor = None\<rparr>]"
             and wc = "(workspace [more_page [member_named ''jane'' ''U1'' ''Jane Doe'', member_named ''jd'' ''U2'' ''Jane Doe''] ''p2'',
                   more_page [member_named ''bob'' ''U3'' ''Bob''] ''p3''] [2, 11])
                   \<lparr>trace := [''GET /conversations.list cursor='']\<rparr>"
             and pgs = "[\<lparr>entries = [member_named ''jane'' ''U1'' ''Jane Doe'', member_named ''jd'' ''U2'' ''Jane Doe''],
                          next_cursor = Some ''p2''\<rparr>]"
             and cur = "''p2''"
             and wa = "(workspace [more_page [member_named ''bob'' ''U3'' ''Bob''] ''p3''] [11])
                   \<lparr>trace := [''GET /conversations.list cursor='', ''GET /users.list cursor='']\<rparr>"
             and pg = "\<lparr>entries = [member_named ''bob'' ''U3'' ''Bob''], next_cursor = Some ''p3''\<rparr>"
             and wb = "(workspace [] [11])
                   \<lparr>trace := [''GET /conversations.list cursor='', ''GET /users.list cursor='',
                               ''GET /users.list cursor=p2'']\<rparr>",
           THEN conjunct1, THEN mp])
       (simp_all add: run_defs at_page_def)
  have exhausted:
    "get_channel_id_with_timeout 2 scripted bot ''Jane Doe'' 10
       (workspace [last_page [channel_named ''general'' ''C1''],
                   more_page [member_named ''jane'' ''U1'' ''Jane Doe'', member_named ''jd'' ''U2'' ''Jane Doe''] ''p2'',
                   last_page [member_named ''bob'' ''U3'' ''Bob'']] [0, 1, 2, 9])
     = (Some (Inl (DuplicateDisplayNameError ''Jane Doe'')),
        (workspace [] [])
          \<lparr>trace := [''GET /conversations.list cursor='', ''GET /users.list cursor='',
                      ''GET /users.list cursor=p2'']\<rparr>)"
    by (rule recorded_duplicates_yield_to_timeout
          [where ti = 0 and now = 9
             and wi = "workspace [last_page [channel_named ''general'' ''C1''],
                   more_page [member_named ''jane'' ''U1'' ''Jane Doe'', member_named ''jd'' ''U2'' ''Jane Doe''] ''p2'',
                   last_page [member_named ''bob'' ''U3'' ''Bob'']] [1, 2, 9]"
             and cpages = "[\<lparr>entries = [channel_named ''general'' ''C1''], next_cursor = None\<rparr>]"
             and wc = "(workspace [more_page [member_named ''jane'' ''U1'' ''Jane Doe'', member_named ''jd'' ''U2'' ''Jane Doe''] ''p2'',
                   last_page [member_named ''bob'' ''U3'' ''Bob'']] [2, 9])
                   \<lparr>trace := [''GET /conversations.list cursor='']\<rparr>"
             and pgs = "[\<lparr>entries = [member_named ''jane'' ''U1'' ''Jane Doe'', member_named ''jd'' ''U2'' ''Jane Doe''],
                          next_cursor = Some ''p2''\<rparr>]"
             and cur = "''p2''"
             and wa = "(workspace [last_page [member_named ''bob'' ''U3'' ''Bob'']] [9])
                   \<lparr>trace := [''GET /conversations.list cursor='', ''GET /users.list cursor='']\<rparr>"
             and pg = "\<lparr>entries = [member_named ''bob'' ''U3'' ''Bob''], next_cursor = None\<rparr>"
             and wb = "(workspace [] [9])
                   \<lparr>trace := [''GET /conversations.list cursor='', ''GET /users.list cursor='',
                               ''GET /users.list cursor=p2'']\<rparr>",
           THEN conjunct2, THEN mp])
       (simp_all add: run_defs at_page_def)
  from expired exhausted show ?thesis
    by simp
qed

theorem recorded_duplicates_then_timeout_counterexample:
  "fst (get_channel_id_with_timeout 2 scripted bot ''Jane Doe'' 10
     (workspace [last_page [channel_named ''general'' ''C1''],
                 more_page [member_named ''jane'' ''U1'' ''Jane Doe'', member_named ''jd'' ''U2'' ''Jane Doe''] ''p2'',
                 last_page [member_named ''bob'' ''U3'' ''Bob'']] [0, 1, 11]))
   = Some (Inr (''@'', None, True))
   \<and> fst (get_channel_id_with_timeout 2 scripted bot ''Jane Doe'' 10
     (workspace [last_page [channel_named ''general'' ''C1''],
                 more_page [member_named ''jane'' ''U1'' ''Jane Doe'', member_named ''jd'' ''U2'' ''Jane Doe''] ''p2'',
                 last_page [member_named ''bob'' ''U3'' ''Bob'']] [0, 1, 11]))
   \<noteq> Some (Inl (DuplicateDisplayNameError ''Jane Doe''))"
  by (simp add: run_defs numeral_2_eq_2)

subsection \<open>The deadline\<close>

text \<open>
  C5. The clock is read for the first time after the first page has been fetched and
  scanned. If that page is served without \<open>ApiError\<close>, holds no item with the query name up
  to case, and the clock read after it is past the deadline (as it is when the deadline lay in
  the past before the fetch completed), resolution returns \<open>("#", None, True)\<close>. The world
  returned is the one after exactly one request, for \<open>conversations\<close> with the empty cursor,
  and the clock reading that follows it.
\<close>

theorem expired_deadline_times_out_after_first_page:
  assumes "time_time env w = (ti, wi)"
    and "client_get env (list_request integ ''conversations'' '''') wi = (Inr pg, wa)"
    and "\<forall>c\<in>set (entries pg). \<not> name_is env name c"
    and "time_time env wa = (now, wb)"
    and "now > ti + timeout"
  shows "get_channel_id_with_timeout (Suc fuel) env integ name timeout w
           = (Some (Inr (''#'', None, True)), wb)"
  using assms
  by (simp add: get_channel_id_with_timeout_def LIST_TYPES_def CHANNEL_PREFIX_def scan_items_no_match)

theorem expired_deadline_times_out_after_first_page_witness:
  "get_channel_id_with_timeout (Suc 0) scripted bot ''general'' (- 5)
     (workspace [more_page [channel_named ''random'' ''C1''] ''p2''] [100, 101])
   = (Some (Inr (''#'', None, True)),
      (workspace [] [])\<lparr>trace := [''GET /conversations.list cursor='']\<rparr>)"
  using expired_deadline_times_out_after_first_page
    [where env = scripted and integ = bot and name = "''general''" and timeout = "- 5" and fuel = 0
       and w = "workspace [more_page [channel_named ''random'' ''C1''] ''p2''] [100, 101]"
       and ti = 100
       and wi = "workspace [more_page [channel_named ''random'' ''C1''] ''p2''] [101]"
       and pg = "\<lparr>entries = [channel_named ''random'' ''C1''], next_cursor = Some ''p2''\<rparr>"
       and wa = "(workspace [] [101])\<lparr>trace := [''GET /conversations.list cursor='']\<rparr>"
       and now = 101
       and wb = "(workspace [] [])\<lparr>trace := [''GET /conversations.list cursor='']\<rparr>"]
  by (simp add: run_defs)

text \<open>
  C7. \<open>get_channel_id\<close> resolves the name without its leading \<open>#\<close> and \<open>@\<close> characters,
  with a deadline of 10 seconds after the clock reading taken at the start of resolution, or
  of 180 seconds after it when \<open>use_async_lookup\<close> is set.
\<close>

theorem get_channel_id_deadline_and_name:
  "time_time env w = (ti, wi) \<Longrightarrow>
   get_channel_id fuel env org integ name use_async_lookup w
     = for_loop fuel env integ (dropWhile (\<lambda>ch. ch = CHR ''#'' \<or> ch = CHR ''@'') name)
         (ti + (if use_async_lookup then 180 else 10))
         [(''conversations'', ''channels'', ''#''), (''users'', ''members'', ''@'')] None
         \<lparr>id_data = None, found_duplicate = False\<rparr> wi"
proof -
  assume tm: "time_time env w = (ti, wi)"
  have "(\<lambda>ch. ch \<in> set strip_channel_chars) = (\<lambda>ch. ch = CHR ''#'' \<or> ch = CHR ''@'')"
    by (auto simp: strip_channel_chars_def MEMBER_PREFIX_def CHANNEL_PREFIX_def)
  then have strip: "strip_channel_name name = dropWhile (\<lambda>ch. ch = CHR ''#'' \<or> ch = CHR ''@'') name"
    by (simp add: strip_channel_name_def)
  have lts: "LIST_TYPES = [(''conversations'', ''channels'', ''#''), (''users'', ''members'', ''@'')]"
    by (simp add: LIST_TYPES_def MEMBER_PREFIX_def CHANNEL_PREFIX_def)
  have "(if use_async_lookup then 3 * 60 else SLACK_DEFAULT_TIMEOUT) = (if use_async_lookup then 180 else (10::real))"
    by (simp add: SLACK_DEFAULT_TIMEOUT_def)
  with tm show ?thesis
    unfolding get_channel_id_def get_channel_id_with_timeout_def strip lts
    by (simp del: for_loop.simps)
qed

theorem get_channel_id_deadline_and_name_witness:
  "get_channel_id 2 scripted acme bot ''#@general'' False
     (workspace [more_page [channel_named ''random'' ''C1''] ''p2'',
                 last_page [channel_named ''general'' ''C2'']] [100, 111, 281])
   = (Some (Inr (''#'', None, True)),
      (workspace [last_page [channel_named ''general'' ''C2'']] [281])
        \<lparr>trace := [''GET /conversations.list cursor='']\<rparr>)
   \<and> get_channel_id 2 scripted acme bot ''#@general'' True
     (workspace [more_page [channel_named ''random'' ''C1''] ''p2'',
                 last_page [channel_named ''general'' ''C2'']] [100, 111, 281])
   = (Some (Inr (''#'', Some ''C2'', False)),
      (workspace [] [281])
        \<lparr>trace := [''GET /conversations.list cursor='', ''GET /conversations.list cursor=p2'']\<rparr>)"
  using get_channel_id_deadline_and_name
    [where env = scripted and org = acme and integ = bot and name = "''#@general''" and fuel = 2
       and use_async_lookup = False
       and w = "workspace [more_page [channel_named ''random'' ''C1''] ''p2'',
                 last_page [channel_named ''general'' ''C2'']] [100, 111, 281]"
       and ti = 100
       and wi = "workspace [more_page [channel_named ''random'' ''C1''] ''p2'',
                 last_page [channel_named ''general'' ''C2'']] [111, 281]"]
    get_channel_id_deadline_and_name
    [where env = scripted and org = acme and integ = bot and name = "''#@general''" and fuel = 2
       and use_async_lookup = True
       and w = "workspace [more_page [channel_named ''random'' ''C1''] ''p2'',
                 last_page [channel_named ''general'' ''C2'']] [100, 111, 281]"
       and ti = 100
       and wi = "workspace [more_page [channel_named ''random'' ''C1''] ''p2'',
                 last_page [channel_named ''general'' ''C2'']] [111, 281]"]
  by (simp add: run_defs numeral_2_eq_2)

subsection \<open>No match\<close>

text \<open>
  C6. Let both listings be served completely, without \<open>ApiError\<close> and with no clock reading
  past the deadline. If no item of either listing has the query name up to case and no item of
  the \<open>users\<close> listing has it as display name, resolution returns \<open>("@", None, False)\<close>: the
  prefix is the one of \<open>users\<close>, the list type searched last.
\<close>

theorem no_match_returns_not_found_member_prefix:
  assumes "time_time env w = (ti, wi)"
    and "listing env integ (ti + timeout) ''conversations'' '''' wi cpages wa"
    and "listing env integ (ti + timeout) ''users'' '''' wa upages wb"
    and "\<forall>c\<in>set (all_entries cpages @ all_entries upages). \<not> name_is env name c"
    and "\<forall>c\<in>set (all_entries upages). \<not> display_name_is name c"
    and "length cpages \<le> fuel" and "length upages \<le> fuel"
  shows "get_channel_id_with_timeout fuel env integ name timeout w
           = (Some (Inr (''@'', None, False)), wb)"
proof -
  let ?sti = "\<lparr>id_data = None, found_duplicate = False\<rparr>"
  let ?st1 = "foldl (\<lambda>s c. record_display_name ''users'' ''@'' name c s) ?sti (all_entries upages)"
  from assms(4) have nc: "\<forall>c\<in>set (all_entries cpages). \<not> name_is env name c"
    and nu: "\<forall>c\<in>set (all_entries upages). \<not> name_is env name c"
    by auto
  have conv: "while_loop fuel env integ name (ti + timeout) (''conversations'', ''channels'', ''#'') '''' ?sti wi
                = (Some (Break ?sti), wa)"
    using while_loop_listing [OF assms(2) nc assms(6)] by (simp add: fold_record_other)
  have usr: "while_loop fuel env integ name (ti + timeout) (''users'', ''members'', ''@'') '''' ?sti wa
               = (Some (Break ?st1), wb)"
    by (rule while_loop_listing [OF assms(3) nu assms(7)])
  have nodup: "\<not> found_duplicate ?st1"
    using assms(5) by (simp add: fold_record_found_duplicate no_display_name_filter)
  have nocand: "id_data ?st1 = None"
    using assms(5) by (simp add: fold_record_id_data no_display_name_filter)
  show ?thesis
    using assms(1) conv usr nodup nocand
    by (simp add: get_channel_id_with_timeout_def LIST_TYPES_def CHANNEL_PREFIX_def MEMBER_PREFIX_def)
qed

theorem no_match_returns_not_found_member_prefix_witness:
  "get_channel_id_with_timeout 2 scripted bot ''nobody'' 10
     (workspace [more_page [channel_named ''general'' ''C1''] ''p2'',
                 last_page [channel_named ''random'' ''C2''],
                 last_page [member_named ''jane'' ''U1'' ''Jane Doe'']] [0, 1, 2, 3])
   = (Some (Inr (''@'', None, False)),
      (workspace [] [])
        \<lparr>trace := [''GET /conversations.list cursor='', ''GET /conversations.list cursor=p2'',
                    ''GET /users.list cursor='']\<rparr>)"
  using no_match_returns_not_found_member_prefix
    [where env = scripted and integ = bot and name = "''nobody''" and timeout = 10 and fuel = 2
       and w = "workspace [more_page [channel_named ''general'' ''C1''] ''p2'',
                 last_page [channel_named ''random'' ''C2''],
                 last_page [member_named ''jane'' ''U1'' ''Jane Doe'']] [0, 1, 2, 3]"
       and ti = 0
       and wi = "workspace [more_page [channel_named ''general'' ''C1''] ''p2'',
                 last_page [channel_named ''random'' ''C2''],
                 last_page [member_named ''jane'' ''U1'' ''Jane Doe'']] [1, 2, 3]"
       and cpages = "[\<lparr>entries = [channel_named ''general'' ''C1''], next_cursor = Some ''p2''\<rparr>,
                      \<lparr>entries = [channel_named ''random'' ''C2''], next_cursor = None\<rparr>]"
       and wa = "(workspace [last_page [member_named ''jane'' ''U1'' ''Jane Doe'']] [3])
                   \<lparr>trace := [''GET /conversations.list cursor='', ''GET /conversations.list cursor=p2'']\<rparr>"
       and upages = "[\<lparr>entries = [member_named ''jane'' ''U1'' ''Jane Doe''], next_cursor = None\<rparr>]"
       and wb = "(workspace [] [])
        \<lparr>trace := [''GET /conversations.list cursor='', ''GET /conversations.list cursor=p2'',
                    ''GET /users.list cursor='']\<rparr>"]
  by (simp add: run_defs)

subsection \<open>The shape of the returned tuple\<close>

text \<open>
  C10. Whenever \<open>get_channel_id_with_timeout\<close> returns a tuple
  \<open>(prefix, channel_id, timed_out)\<close>, a \<open>channel_id\<close> other than \<open>None\<close> comes with
  \<open>timed_out = False\<close>: an id and a timeout are never reported together.
\<close>

theorem resolved_id_and_timeout_exclusive:
  "get_channel_id_with_timeout fuel env integ name timeout w
     = (Some (Inr (prefix, channel_id, timed_out)), w') \<Longrightarrow>
   channel_id \<noteq> None \<longrightarrow> \<not> timed_out"
proof -
  assume run: "get_channel_id_with_timeout fuel env integ name timeout w
     = (Some (Inr (prefix, channel_id, timed_out)), w')"
  obtain t0 w0 where tm: "time_time env w = (t0, w0)"
    by (cases "time_time env w")
  have init: "\<forall>p cid t. id_data \<lparr>id_data = None, found_duplicate = False\<rparr> = Some (p, cid, t) \<longrightarrow> \<not> t"
    by simp
  from run tm
  have "for_loop fuel env integ name (t0 + timeout) LIST_TYPES None
          \<lparr>id_data = None, found_duplicate = False\<rparr> w0
        = (Some (Inr (prefix, channel_id, timed_out)), w')"
    by (simp add: get_channel_id_with_timeout_def)
  from for_loop_shape [OF init this] show ?thesis .
qed

theorem resolved_id_and_timeout_exclusive_witness:
  "get_channel_id_with_timeout 1 scripted bot ''general'' 10
     (workspace [last_page [channel_named ''random'' ''C1'', channel_named ''general'' ''C2'']] [0, 99])
   = (Some (Inr (''#'', Some ''C2'', False)),
      (workspace [] [99])\<lparr>trace := [''GET /conversations.list cursor='']\<rparr>)"
  using resolved_id_and_timeout_exclusive
    [where env = scripted and integ = bot and name = "''general''" and timeout = 10 and fuel = 1
       and w = "workspace [last_page [channel_named ''random'' ''C1'', channel_named ''general'' ''C2'']] [0, 99]"
       and prefix = "''#''" and channel_id = "Some ''C2''" and timed_out = False
       and w' = "(workspace [] [99])\<lparr>trace := [''GET /conversations.list cursor='']\<rparr>"]
  by (simp add: run_defs)

section \<open>Properties of the alert notification\<close>



section \<open>Properties of the notification settings\<close>





end
